theory Spec2Isabelle
  imports Main
begin

section \<open>The toolkit's value types, as far as the stack uses them\<close>

text \<open>
  The stack of \<^verbatim>\<open>lib/cdk-s3-distribution-stack.ts\<close> assembles property objects and hands
  them to constructs of the provisioning toolkit. An enumeration of the toolkit is a
  datatype here (of \<^verbatim>\<open>Unit\<close>, a selection of the members); a property object is a record.
  A construct created with \<^verbatim>\<open>new X(this, id, props)\<close> is a node the toolkit attaches to the
  stack, unless the toolkit raises: every constructor of the toolkit is a function into
  \<open>error + _\<close>, and so is every method of the stack that calls one.
\<close>

datatype ViewerProtocolPolicy = HTTPS_ONLY | REDIRECT_TO_HTTPS | ALLOW_ALL

datatype HttpVersion = HTTP1_1 | HTTP2

datatype PriceClass = PRICE_CLASS_100 | PRICE_CLASS_200 | PRICE_CLASS_ALL

datatype SecurityPolicyProtocol =
  SSL_V3 | TLS_V1 | TLS_V1_2016 | TLS_V1_1_2016 | TLS_V1_2_2018 | TLS_V1_2_2019

datatype SSLMethod = SNI | VIP

datatype CloudFrontAllowedMethods = GET_HEAD | GET_HEAD_OPTIONS | ALL

datatype ComparisonOperator =
  GREATER_THAN_OR_EQUAL_TO_THRESHOLD
| GREATER_THAN_THRESHOLD
| LESS_THAN_THRESHOLD
| LESS_THAN_OR_EQUAL_TO_THRESHOLD

datatype TreatMissingData = BREACHING | NOT_BREACHING | IGNORE | MISSING

datatype Unit = SECONDS | MILLISECONDS | BYTES | PERCENT | COUNT | COUNT_PER_SECOND | NONE

datatype Duration = Seconds nat

text \<open>
  A property value is either a literal string or the attribute of another construct
  (\<^verbatim>\<open>certificate.certificateArn\<close>, \<^verbatim>\<open>cloudFrontDistribution.distributionId\<close>), which the
  toolkit resolves at deployment: the construct's id and the attribute's name.
\<close>

datatype Attribute = Literal string | GetAtt string string

text \<open>
  What a run can raise: the \<^verbatim>\<open>TypeError\<close> of reading the names from missing props, and
  the errors of the toolkit's constructors.
\<close>

datatype error =
  TypeError
| StackRejected
| DuplicateId string
| BucketNameRejected
| MissingEnvironment
| NoSingleDefaultBehavior
| PathPatternRequired

subsection \<open>Stack properties\<close>

record Environment =
  account :: "string option"
  region :: "string option"

record StackProps =
  description :: "string option"
  env :: "Environment option"
  stackName :: "string option"

record DistributionStackProps = StackProps +
  bucketName :: string
  domainName :: string

subsection \<open>Constructs\<close>

record Bucket =
  bucket_id :: string
  bucket_bucketName :: string

record HostedZone =
  zone_id :: string
  zone_hostedZoneId :: string
  zone_zoneName :: string

record DnsValidatedCertificate =
  cert_id :: string
  cert_domainName :: string
  cert_hostedZone :: HostedZone
  cert_region :: "string option"

record OriginAccessIdentity =
  oai_id :: string

record AliasConfiguration =
  alias_acmCertRef :: Attribute
  alias_names :: "string list"
  alias_securityPolicy :: SecurityPolicyProtocol
  alias_sslMethod :: SSLMethod

record ErrorConfiguration =
  err_errorCode :: int
  err_responseCode :: int
  err_responsePagePath :: string

record Cookies =
  cookies_forward :: string

record ForwardedValues =
  fwd_queryString :: bool
  fwd_cookies :: Cookies

record Behavior =
  beh_allowedMethods :: CloudFrontAllowedMethods
  beh_compress :: bool
  beh_forwardedValues :: ForwardedValues
  beh_isDefaultBehavior :: bool

record S3OriginSource =
  s3_originAccessIdentity :: OriginAccessIdentity
  s3_s3BucketSource :: Bucket

record OriginConfig =
  origin_s3OriginSource :: S3OriginSource
  origin_behaviors :: "Behavior list"

record CloudFrontWebDistribution =
  dist_id :: string
  dist_comment :: string
  dist_viewerProtocolPolicy :: ViewerProtocolPolicy
  dist_httpVersion :: HttpVersion
  dist_defaultRootObject :: string
  dist_priceClass :: PriceClass
  dist_aliasConfiguration :: AliasConfiguration
  dist_errorConfigurations :: "ErrorConfiguration list"
  dist_originConfigs :: "OriginConfig list"

record Metric =
  metric_metricName :: string
  metric_namespace :: string
  metric_period :: Duration
  metric_statistic :: string
  metric_unit :: Unit
  metric_dimensions :: "(string \<times> Attribute) list"

record Alarm =
  alarm_id :: string
  alarm_alarmDescription :: string
  alarm_alarmName :: string
  alarm_comparisonOperator :: ComparisonOperator
  alarm_evaluationPeriods :: nat
  alarm_metric :: Metric
  alarm_threshold :: int
  alarm_treatMissingData :: TreatMissingData

datatype Construct =
  BucketNode Bucket
| HostedZoneNode HostedZone
| CertificateNode DnsValidatedCertificate
| OriginAccessIdentityNode OriginAccessIdentity
| DistributionNode CloudFrontWebDistribution
| AlarmNode Alarm

fun construct_id :: "Construct \<Rightarrow> string" where
  "construct_id (BucketNode b) = bucket_id b"
| "construct_id (HostedZoneNode z) = zone_id z"
| "construct_id (CertificateNode c) = cert_id c"
| "construct_id (OriginAccessIdentityNode i) = oai_id i"
| "construct_id (DistributionNode d) = dist_id d"
| "construct_id (AlarmNode a) = alarm_id a"

datatype App = App

text \<open>
  The stack: its account and region (those of \<^verbatim>\<open>props.env\<close>, when given; otherwise the
  stack is bound to them at deployment only), and the constructs the source has declared
  in it, in the order of declaration. Children that a construct of the toolkit adds to the
  stack on its own are not listed.
\<close>

record Stack =
  stack_account :: "string option"
  stack_region :: "string option"
  children :: "Construct list"

section \<open>The toolkit\<close>

text \<open>
  The toolkit is not part of the repository. Three of its answers depend on rules and on
  state the repository does not fix, and are parameters of the model: whether it accepts a
  stack with a given id and \<^verbatim>\<open>stackName\<close> property, whether it accepts a bucket name, and
  the zone (hosted zone id and zone name) its context provider answers for an account, a
  region, a domain name and the private-zone flag.
\<close>

record Toolkit =
  acceptsStack :: "string \<Rightarrow> string option \<Rightarrow> bool"
  acceptsBucketName :: "string \<Rightarrow> bool"
  hostedZoneProvider :: "string \<Rightarrow> string \<Rightarrow> string \<Rightarrow> bool \<Rightarrow> string \<times> string"

text \<open>
  \<^verbatim>\<open>super(scope, id, props)\<close>: the toolkit's stack constructor raises on an id or name it
  rejects; otherwise the stack has no children yet. Missing props are the toolkit's
  default, the empty props.
\<close>

definition Stack_super ::
  "Toolkit \<Rightarrow> App \<Rightarrow> string \<Rightarrow> DistributionStackProps option \<Rightarrow> error + Stack" where
  "Stack_super tk scope ident props =
     (if acceptsStack tk ident (case props of None \<Rightarrow> None | Some p \<Rightarrow> stackName p)
      then Inr \<lparr> stack_account =
                   (case props of None \<Rightarrow> None
                    | Some p \<Rightarrow> (case env p of None \<Rightarrow> None | Some e \<Rightarrow> account e)),
                 stack_region =
                   (case props of None \<Rightarrow> None
                    | Some p \<Rightarrow> (case env p of None \<Rightarrow> None | Some e \<Rightarrow> region e)),
                 children = [] \<rparr>
      else Inl StackRejected)"

text \<open>A scope refuses a second child with an id it already has.\<close>

definition addChild :: "Construct \<Rightarrow> Stack \<Rightarrow> error + Stack" where
  "addChild c this =
     (if construct_id c \<in> set (map construct_id (children this))
      then Inl (DuplicateId (construct_id c))
      else Inr (this \<lparr> children := children this @ [c] \<rparr>))"

text \<open>\<^verbatim>\<open>new Bucket\<close>: attached first, then the bucket name is validated.\<close>

definition new_Bucket :: "Toolkit \<Rightarrow> Bucket \<Rightarrow> Stack \<Rightarrow> error + Bucket \<times> Stack" where
  "new_Bucket tk bucket this =
     (case addChild (BucketNode bucket) this of
        Inl e \<Rightarrow> Inl e
      | Inr this' \<Rightarrow>
          if acceptsBucketName tk (bucket_bucketName bucket)
          then Inr (bucket, this') else Inl BucketNameRejected)"

text \<open>
  \<^verbatim>\<open>HostedZone.fromLookup\<close>: the context provider raises unless the stack has an explicit
  account and region; the zone it answers is attached to the stack as a reference.
\<close>

definition HostedZone_fromLookup ::
  "Toolkit \<Rightarrow> string \<Rightarrow> string \<Rightarrow> bool \<Rightarrow> Stack \<Rightarrow> error + HostedZone \<times> Stack" where
  "HostedZone_fromLookup tk ident domainName' privateZone this =
     (case stack_account this of
        None \<Rightarrow> Inl MissingEnvironment
      | Some a \<Rightarrow>
         (case stack_region this of
            None \<Rightarrow> Inl MissingEnvironment
          | Some r \<Rightarrow>
             (let zone = \<lparr> zone_id = ident,
                            zone_hostedZoneId =
                              fst (hostedZoneProvider tk a r domainName' privateZone),
                            zone_zoneName =
                              snd (hostedZoneProvider tk a r domainName' privateZone) \<rparr>
              in case addChild (HostedZoneNode zone) this of
                   Inl e \<Rightarrow> Inl e
                 | Inr this' \<Rightarrow> Inr (zone, this'))))"

definition new_DnsValidatedCertificate ::
  "DnsValidatedCertificate \<Rightarrow> Stack \<Rightarrow> error + DnsValidatedCertificate \<times> Stack" where
  "new_DnsValidatedCertificate certificate this =
     (case addChild (CertificateNode certificate) this of
        Inl e \<Rightarrow> Inl e
      | Inr this' \<Rightarrow> Inr (certificate, this'))"

definition new_OriginAccessIdentity ::
  "OriginAccessIdentity \<Rightarrow> Stack \<Rightarrow> error + OriginAccessIdentity \<times> Stack" where
  "new_OriginAccessIdentity identity this =
     (case addChild (OriginAccessIdentityNode identity) this of
        Inl e \<Rightarrow> Inl e
      | Inr this' \<Rightarrow> Inr (identity, this'))"

text \<open>
  \<^verbatim>\<open>new CloudFrontWebDistribution\<close>: attached first; then the behaviors of all origins are
  collected, and the constructor raises unless exactly one of them is the default behavior,
  and raises on any other behavior without a path pattern (the behaviors of this stack
  carry none).
\<close>

definition allBehaviors :: "CloudFrontWebDistribution \<Rightarrow> Behavior list" where
  "allBehaviors distribution = concat (map origin_behaviors (dist_originConfigs distribution))"

definition new_CloudFrontWebDistribution ::
  "CloudFrontWebDistribution \<Rightarrow> Stack \<Rightarrow> error + CloudFrontWebDistribution \<times> Stack" where
  "new_CloudFrontWebDistribution distribution this =
     (case addChild (DistributionNode distribution) this of
        Inl e \<Rightarrow> Inl e
      | Inr this' \<Rightarrow>
          if length (filter beh_isDefaultBehavior (allBehaviors distribution)) = 1
          then (if length (allBehaviors distribution) = 1
                then Inr (distribution, this') else Inl PathPatternRequired)
          else Inl NoSingleDefaultBehavior)"

definition new_Alarm :: "Alarm \<Rightarrow> Stack \<Rightarrow> error + Stack" where
  "new_Alarm alarm this = addChild (AlarmNode alarm) this"

definition certificateArn :: "DnsValidatedCertificate \<Rightarrow> Attribute" where
  "certificateArn certificate = GetAtt (cert_id certificate) ''certificateArn''"

definition distributionId :: "CloudFrontWebDistribution \<Rightarrow> Attribute" where
  "distributionId distribution = GetAtt (dist_id distribution) ''distributionId''"

text \<open>
  The region a certificate is issued in, by the toolkit's declaration of the optional
  \<^verbatim>\<open>region\<close> property of \<^verbatim>\<open>DnsValidatedCertificate\<close>: the property when given, otherwise
  the region of the stack that holds the certificate.
\<close>

definition certificate_region :: "Stack \<Rightarrow> DnsValidatedCertificate \<Rightarrow> string option" where
  "certificate_region this certificate =
     (case cert_region certificate of Some r \<Rightarrow> Some r | None \<Rightarrow> stack_region this)"

section \<open>The stack\<close>

subsection \<open>The construct ids and property objects of the source\<close>

definition AppBucket :: "string \<Rightarrow> Bucket" where
  "AppBucket bucketName' = \<lparr> bucket_id = ''AppBucket'', bucket_bucketName = bucketName' \<rparr>"

definition DistributionCertificate :: "string \<Rightarrow> HostedZone \<Rightarrow> DnsValidatedCertificate" where
  "DistributionCertificate domainName' hostedZone =
     \<lparr> cert_id = ''DistributionCertificate'',
       cert_domainName = domainName',
       cert_hostedZone = hostedZone,
       cert_region = None \<rparr>"

definition AppDistributionOAI :: OriginAccessIdentity where
  "AppDistributionOAI = \<lparr> oai_id = ''AppDistributionOAI'' \<rparr>"

definition AppDistribution ::
  "OriginAccessIdentity \<Rightarrow> Bucket \<Rightarrow> string \<Rightarrow> DnsValidatedCertificate
     \<Rightarrow> CloudFrontWebDistribution" where
  "AppDistribution originAccessIdentity bucketSource domainName' certificate =
     \<lparr> dist_id = ''AppDistribution'',
       dist_comment = ''App Distribution'',
       dist_viewerProtocolPolicy = REDIRECT_TO_HTTPS,
       dist_httpVersion = HTTP2,
       dist_defaultRootObject = ''index.html'',
       dist_priceClass = PRICE_CLASS_100,
       dist_aliasConfiguration =
         \<lparr> alias_acmCertRef = certificateArn certificate,
           alias_names = [domainName'],
           alias_securityPolicy = TLS_V1_2_2018,
           alias_sslMethod = SNI \<rparr>,
       dist_errorConfigurations =
         [ \<lparr> err_errorCode = 404,
             err_responseCode = 200,
             err_responsePagePath = ''/index.html'' \<rparr> ],
       dist_originConfigs =
         [ \<lparr> origin_s3OriginSource =
               \<lparr> s3_originAccessIdentity = originAccessIdentity,
                 s3_s3BucketSource = bucketSource \<rparr>,
             origin_behaviors =
               [ \<lparr> beh_allowedMethods = GET_HEAD,
                   beh_compress = True,
                   beh_forwardedValues =
                     \<lparr> fwd_queryString = False,
                       fwd_cookies = \<lparr> cookies_forward = ''none'' \<rparr> \<rparr>,
                   beh_isDefaultBehavior = False \<rparr> ] \<rparr> ] \<rparr>"

definition clientHttpErrorMetric :: "CloudFrontWebDistribution \<Rightarrow> Metric" where
  "clientHttpErrorMetric cloudFrontDistribution =
     \<lparr> metric_metricName = ''4xxErrorRate'',
       metric_namespace = ''AWS/CloudFront'',
       metric_period = Seconds 3600,
       metric_statistic = ''Average'',
       metric_unit = COUNT,
       metric_dimensions =
         [ (''Region'', Literal ''Global''),
           (''DistributionId'', distributionId cloudFrontDistribution) ] \<rparr>"

definition ClientHttpErrorAlarm :: "CloudFrontWebDistribution \<Rightarrow> Alarm" where
  "ClientHttpErrorAlarm cloudFrontDistribution =
     \<lparr> alarm_id = ''ClientHttpErrorAlarm'',
       alarm_alarmDescription = ''CloudFront4XX Errors'',
       alarm_alarmName = ''CloudFront4XX'',
       alarm_comparisonOperator = GREATER_THAN_THRESHOLD,
       alarm_evaluationPeriods = 1,
       alarm_metric = clientHttpErrorMetric cloudFrontDistribution,
       alarm_threshold = 2,
       alarm_treatMissingData = MISSING \<rparr>"

definition serverHttpErrorMetric :: "CloudFrontWebDistribution \<Rightarrow> Metric" where
  "serverHttpErrorMetric cloudFrontDistribution =
     \<lparr> metric_metricName = ''5xxErrorRate'',
       metric_namespace = ''AWS/CloudFront'',
       metric_period = Seconds 3600,
       metric_statistic = ''Average'',
       metric_unit = COUNT,
       metric_dimensions =
         [ (''Region'', Literal ''Global''),
           (''DistributionId'', distributionId cloudFrontDistribution) ] \<rparr>"

definition ServerHttpErrorAlarm :: "CloudFrontWebDistribution \<Rightarrow> Alarm" where
  "ServerHttpErrorAlarm cloudFrontDistribution =
     \<lparr> alarm_id = ''ServerHttpErrorAlarm'',
       alarm_alarmDescription = ''CloudFront5XX Errors'',
       alarm_alarmName = ''CloudFront5XX'',
       alarm_comparisonOperator = GREATER_THAN_THRESHOLD,
       alarm_evaluationPeriods = 1,
       alarm_metric = serverHttpErrorMetric cloudFrontDistribution,
       alarm_threshold = 1,
       alarm_treatMissingData = MISSING \<rparr>"

subsection \<open>The methods\<close>

definition lookupHostedZone ::
  "Toolkit \<Rightarrow> string \<Rightarrow> bool \<Rightarrow> Stack \<Rightarrow> error + HostedZone \<times> Stack" where
  "lookupHostedZone tk domainName' privateZone this =
     HostedZone_fromLookup tk ''HostedZone'' domainName' privateZone this"

definition buildAppBucket :: "Toolkit \<Rightarrow> string \<Rightarrow> Stack \<Rightarrow> error + Bucket \<times> Stack" where
  "buildAppBucket tk bucketName' this = new_Bucket tk (AppBucket bucketName') this"

definition buildDistributionCertificate ::
  "string \<Rightarrow> HostedZone \<Rightarrow> Stack \<Rightarrow> error + DnsValidatedCertificate \<times> Stack" where
  "buildDistributionCertificate domainName' hostedZone this =
     new_DnsValidatedCertificate (DistributionCertificate domainName' hostedZone) this"

definition buildCloudFrontDistribution ::
  "Bucket \<Rightarrow> string \<Rightarrow> DnsValidatedCertificate \<Rightarrow> Stack
     \<Rightarrow> error + CloudFrontWebDistribution \<times> Stack" where
  "buildCloudFrontDistribution bucketSource domainName' certificate this =
     (case new_OriginAccessIdentity AppDistributionOAI this of
        Inl e \<Rightarrow> Inl e
      | Inr (originAccessIdentity, this1) \<Rightarrow>
          new_CloudFrontWebDistribution
            (AppDistribution originAccessIdentity bucketSource domainName' certificate) this1)"

definition buildAlarms :: "CloudFrontWebDistribution \<Rightarrow> Stack \<Rightarrow> error + Stack" where
  "buildAlarms cloudFrontDistribution this =
     (case new_Alarm (ClientHttpErrorAlarm cloudFrontDistribution) this of
        Inl e \<Rightarrow> Inl e
      | Inr this1 \<Rightarrow> new_Alarm (ServerHttpErrorAlarm cloudFrontDistribution) this1)"

text \<open>
  The constructor. The type of \<^verbatim>\<open>props\<close> makes it required; a caller that passes none all
  the same (as the test does) gets past \<^verbatim>\<open>super\<close> and raises a \<^verbatim>\<open>TypeError\<close> where the
  names are read from it. \<^verbatim>\<open>lookupHostedZone\<close> is called with one argument, so
  \<^verbatim>\<open>privateZone\<close> takes its default \<^verbatim>\<open>false\<close>.
\<close>

definition DistributionStack ::
  "Toolkit \<Rightarrow> App \<Rightarrow> string \<Rightarrow> DistributionStackProps option \<Rightarrow> error + Stack" where
  "DistributionStack tk scope ident props =
     (case Stack_super tk scope ident props of
        Inl e \<Rightarrow> Inl e
      | Inr this \<Rightarrow>
     (case props of
        None \<Rightarrow> Inl TypeError
      | Some p \<Rightarrow>
     (case buildAppBucket tk (bucketName p) this of
        Inl e \<Rightarrow> Inl e
      | Inr (bucketSource, this1) \<Rightarrow>
     (case lookupHostedZone tk (domainName p) False this1 of
        Inl e \<Rightarrow> Inl e
      | Inr (hostedZone, this2) \<Rightarrow>
     (case buildDistributionCertificate (domainName p) hostedZone this2 of
        Inl e \<Rightarrow> Inl e
      | Inr (certificate, this3) \<Rightarrow>
     (case buildCloudFrontDistribution bucketSource (domainName p) certificate this3 of
        Inl e \<Rightarrow> Inl e
      | Inr (distribution, this4) \<Rightarrow>
     buildAlarms distribution this4))))))"


subsection \<open>The entry point and other concrete runs\<close>

text \<open>
  One toolkit for the concrete runs. It accepts a stack whose id is not empty and whose
  name (the \<^verbatim>\<open>stackName\<close> property, else the id with each \<^verbatim>\<open>/\<close> made \<^verbatim>\<open>--\<close>) is a letter
  followed by letters, digits and hyphens. It accepts the absent (empty) bucket name, and a
  bucket name of 3 to 63 lower-case letters, digits, periods and hyphens that starts and
  ends with a letter or digit, has no period next to a period or a hyphen, and does not
  look like an IP address. Its context provider answers every lookup with the placeholder
  zone of a first synthesis, before any answer of the platform is cached.
\<close>

definition letter :: "char \<Rightarrow> bool" where
  "letter c =
     (c \<in> set ''abcdefghijklmnopqrstuvwxyz'' \<or> c \<in> set ''ABCDEFGHIJKLMNOPQRSTUVWXYZ'')"

definition digit :: "char \<Rightarrow> bool" where
  "digit c = (c \<in> set ''0123456789'')"

definition lowerOrDigit :: "char \<Rightarrow> bool" where
  "lowerOrDigit c = (c \<in> set ''abcdefghijklmnopqrstuvwxyz'' \<or> digit c)"

definition sanitizeId :: "string \<Rightarrow> string" where
  "sanitizeId ident = concat (map (\<lambda>c. if c = CHR ''/'' then ''--'' else [c]) ident)"

definition validStackName :: "string \<Rightarrow> bool" where
  "validStackName name =
     (case name of
        [] \<Rightarrow> False
      | c # cs \<Rightarrow> letter c \<and> list_all (\<lambda>d. letter d \<or> digit d \<or> d = CHR ''-'') cs)"

fun adjacentSymbols :: "string \<Rightarrow> bool" where
  "adjacentSymbols (a # b # cs) =
     ((a = CHR ''.'' \<and> (b = CHR ''-'' \<or> b = CHR ''.''))
      \<or> (a = CHR ''-'' \<and> b = CHR ''.'')
      \<or> adjacentSymbols (b # cs))"
| "adjacentSymbols _ = False"

fun splitPeriods :: "string \<Rightarrow> string list" where
  "splitPeriods [] = [[]]"
| "splitPeriods (c # cs) =
     (if c = CHR ''.'' then [] # splitPeriods cs
      else (case splitPeriods cs of [] \<Rightarrow> [[c]] | p # ps \<Rightarrow> (c # p) # ps))"

definition resemblesIpAddress :: "string \<Rightarrow> bool" where
  "resemblesIpAddress name =
     (length (splitPeriods name) = 4
      \<and> list_all (\<lambda>p. 1 \<le> length p \<and> length p \<le> 3 \<and> list_all digit p) (splitPeriods name))"

definition validBucketName :: "string \<Rightarrow> bool" where
  "validBucketName name =
     (name = []
      \<or> (3 \<le> length name \<and> length name \<le> 63
         \<and> list_all (\<lambda>c. lowerOrDigit c \<or> c = CHR ''.'' \<or> c = CHR ''-'') name
         \<and> lowerOrDigit (hd name) \<and> lowerOrDigit (last name)
         \<and> adjacentSymbols name = False
         \<and> resemblesIpAddress name = False))"

definition cdk :: Toolkit where
  "cdk =
     \<lparr> acceptsStack =
         (\<lambda>ident name. ident = [] = False
            \<and> validStackName (case name of None \<Rightarrow> sanitizeId ident | Some n \<Rightarrow> n)),
       acceptsBucketName = validBucketName,
       hostedZoneProvider = (\<lambda>a r domainName' privateZone. (''DUMMY'', domainName')) \<rparr>"

text \<open>
  A toolkit with the same rules whose context has a cached zone for lookups in
  \<^verbatim>\<open>us-east-1\<close>.
\<close>

definition cdk_cached :: Toolkit where
  "cdk_cached = cdk \<lparr> hostedZoneProvider :=
     (\<lambda>a r domainName' privateZone.
        if r = ''us-east-1'' then (''Z0123456789ABCDEFGHIJ'', domainName')
        else (''DUMMY'', domainName')) \<rparr>"

text \<open>The entry point \<^verbatim>\<open>bin/distribution.ts\<close>: no \<^verbatim>\<open>env\<close> is passed.\<close>

definition BUCKET_NAME :: string where
  "BUCKET_NAME = ''my-unique-bucket-name''"

definition DOMAIN_NAME :: string where
  "DOMAIN_NAME = ''mydomain.com''"

definition main_props :: DistributionStackProps where
  "main_props =
     \<lparr> description = None, env = None, stackName = None,
       bucketName = BUCKET_NAME, domainName = DOMAIN_NAME \<rparr>"

definition distribution_main :: "error + Stack" where
  "distribution_main = DistributionStack cdk App ''CdkS3DistributionStack'' (Some main_props)"

text \<open>
  The entry point's names with an explicit environment, account 123456789012 in
  \<^verbatim>\<open>eu-west-1\<close>; the stack of such a run, by the constructs declared in it so far; and
  the zone and the certificate the run gets on its way.
\<close>

definition eu_props :: DistributionStackProps where
  "eu_props =
     \<lparr> description = None,
       env = Some \<lparr> account = Some ''123456789012'', region = Some ''eu-west-1'' \<rparr>,
       stackName = None,
       bucketName = BUCKET_NAME, domainName = DOMAIN_NAME \<rparr>"

definition eu_stack :: "Construct list \<Rightarrow> Stack" where
  "eu_stack cs =
     \<lparr> stack_account = Some ''123456789012'', stack_region = Some ''eu-west-1'',
       children = cs \<rparr>"

definition dummy_zone :: HostedZone where
  "dummy_zone =
     \<lparr> zone_id = ''HostedZone'', zone_hostedZoneId = ''DUMMY'', zone_zoneName = DOMAIN_NAME \<rparr>"

definition eu_certificate :: DnsValidatedCertificate where
  "eu_certificate = DistributionCertificate DOMAIN_NAME dummy_zone"

subsection \<open>Observations used in the statements\<close>

text \<open>
  What is read off an alarm: the name of its metric, the comparison operator, the
  threshold, the number of evaluation periods and the policy for missing data.
\<close>

definition observe_alarm ::
  "Construct \<Rightarrow> (string \<times> ComparisonOperator \<times> int \<times> nat \<times> TreatMissingData) option" where
  "observe_alarm c =
     (case c of
        AlarmNode a \<Rightarrow> Some (metric_metricName (alarm_metric a), alarm_comparisonOperator a,
                          alarm_threshold a, alarm_evaluationPeriods a,
                          alarm_treatMissingData a)
      | _ \<Rightarrow> None)"



section \<open>What the stack builds\<close>

lemmas toolkit_defs =
  Stack_super_def addChild_def new_Bucket_def HostedZone_fromLookup_def
  new_DnsValidatedCertificate_def new_OriginAccessIdentity_def
  new_CloudFrontWebDistribution_def new_Alarm_def allBehaviors_def

lemmas stack_defs =
  lookupHostedZone_def buildAppBucket_def buildDistributionCertificate_def
  buildCloudFrontDistribution_def buildAlarms_def DistributionStack_def

lemmas object_defs =
  AppBucket_def DistributionCertificate_def AppDistributionOAI_def AppDistribution_def
  ClientHttpErrorAlarm_def ServerHttpErrorAlarm_def clientHttpErrorMetric_def
  serverHttpErrorMetric_def

lemmas run_defs =
  main_props_def eu_props_def eu_stack_def dummy_zone_def eu_certificate_def
  distribution_main_def

subsection \<open>The concrete runs\<close>

lemma cdk_accepts_stack: "acceptsStack cdk ''CdkS3DistributionStack'' None"
  by (simp add: cdk_def validStackName_def sanitizeId_def letter_def digit_def)



lemma cdk_accepts_bucket: "acceptsBucketName cdk BUCKET_NAME"
  by (simp add: cdk_def validBucketName_def BUCKET_NAME_def lowerOrDigit_def digit_def
      resemblesIpAddress_def)

lemma cdk_zone: "hostedZoneProvider cdk a r name privateZone = (''DUMMY'', name)"
  by (simp add: cdk_def)

lemma cdk_cached_accepts [simp]:
  "acceptsStack cdk_cached = acceptsStack cdk"
  "acceptsBucketName cdk_cached = acceptsBucketName cdk"
  by (simp_all add: cdk_cached_def)

text \<open>
  Every run of the constructor raises: in \<^verbatim>\<open>super\<close>, where the names are read, in the
  bucket, in the zone lookup, or at the latest in the distribution. The entry point's own
  run raises in the zone lookup, its stack having no account and region; the run with an
  environment raises in the distribution.
\<close>

lemma DistributionStack_raises:
  "DistributionStack tk scope ident props
     \<in> Inl ` {StackRejected, TypeError, BucketNameRejected, MissingEnvironment,
              NoSingleDefaultBehavior}"
  by (simp add: stack_defs toolkit_defs object_defs Let_def split: option.splits sum.splits)



subsection \<open>The claims\<close>

text \<open>
  Claim C1. The distribution of \<^verbatim>\<open>buildCloudFrontDistribution\<close> has exactly one origin
  configuration with exactly one behavior, and the claim has that behavior be the default
  behavior of the distribution. The source passes \<^verbatim>\<open>isDefaultBehavior: false\<close>: for every
  input the flags of the behaviors, origin by origin, are the single list with the single
  entry \<^verbatim>\<open>false\<close>, so the distribution has one behavior and no default behavior, and
  \<^verbatim>\<open>buildCloudFrontDistribution\<close> raises on every stack instead of returning a
  distribution.
\<close>

theorem sole_behavior_not_default:
  "map (\<lambda>origin. map beh_isDefaultBehavior (origin_behaviors origin))
     (dist_originConfigs (AppDistribution originAccessIdentity bucketSource name certificate))
   = [[False]]
   \<and> isl (buildCloudFrontDistribution bucketSource name certificate this)"
  by (simp add: buildCloudFrontDistribution_def toolkit_defs object_defs split: sum.splits)

text \<open>
  Claim C2. On a stack that has neither of the two alarm ids yet, \<^verbatim>\<open>buildAlarms\<close> returns,
  keeps the constructs the stack already has and appends exactly two, both alarms: the
  first on \<^verbatim>\<open>4xxErrorRate\<close>, greater-than comparison, threshold 2, one evaluation period;
  the second on \<^verbatim>\<open>5xxErrorRate\<close>, greater-than comparison, threshold 1, one evaluation
  period. Both handle missing data with the policy \<^verbatim>\<open>MISSING\<close> (the spec's "missing"
  policy), under which a missing data point is not counted as a breach of the threshold.
\<close>

theorem buildAlarms_two_alarms:
  assumes "''ClientHttpErrorAlarm'' \<notin> set (map construct_id (children this))"
    and "''ServerHttpErrorAlarm'' \<notin> set (map construct_id (children this))"
  shows "buildAlarms distribution this
           = Inr (this \<lparr> children := children this
                   @ [ AlarmNode (ClientHttpErrorAlarm distribution),
                       AlarmNode (ServerHttpErrorAlarm distribution) ] \<rparr>)
         \<and> map observe_alarm
             [ AlarmNode (ClientHttpErrorAlarm distribution),
               AlarmNode (ServerHttpErrorAlarm distribution) ]
           = [ Some (''4xxErrorRate'', GREATER_THAN_THRESHOLD, 2, 1, MISSING),
               Some (''5xxErrorRate'', GREATER_THAN_THRESHOLD, 1, 1, MISSING) ]"
  using assms
  by (simp add: buildAlarms_def new_Alarm_def addChild_def observe_alarm_def object_defs)

text \<open>The two alarms on a stack in \<^verbatim>\<open>eu-west-1\<close> with no constructs yet.\<close>

theorem buildAlarms_two_alarms_witness:
  "''ClientHttpErrorAlarm'' \<notin> set (map construct_id (children (eu_stack [])))
   \<and> ''ServerHttpErrorAlarm'' \<notin> set (map construct_id (children (eu_stack [])))
   \<and> buildAlarms
        (AppDistribution AppDistributionOAI (AppBucket BUCKET_NAME) DOMAIN_NAME eu_certificate)
        (eu_stack [])
      = Inr (eu_stack
          [ AlarmNode (ClientHttpErrorAlarm
              (AppDistribution AppDistributionOAI (AppBucket BUCKET_NAME) DOMAIN_NAME
                 eu_certificate)),
            AlarmNode (ServerHttpErrorAlarm
              (AppDistribution AppDistributionOAI (AppBucket BUCKET_NAME) DOMAIN_NAME
                 eu_certificate)) ])"
  using buildAlarms_two_alarms [of "eu_stack []"
      "AppDistribution AppDistributionOAI (AppBucket BUCKET_NAME) DOMAIN_NAME eu_certificate"]
  by (simp add: eu_stack_def)

text \<open>
  Claim C3. The claim has the constructor produce, for every bucket name and domain name,
  a graph of one bucket, one hosted-zone reference, one certificate, one distribution, one
  access identity and two alarms. The constructor returns no stack for any input: every
  run ends in one of five errors, the last of them the distribution's missing default
  behavior (the defect of claim C1), which no run gets past; the alarms are never declared.
\<close>

theorem constructor_never_returns:
  "DistributionStack tk scope ident props
     \<in> Inl ` {StackRejected, TypeError, BucketNameRejected, MissingEnvironment,
              NoSingleDefaultBehavior}
   \<and> isl (DistributionStack tk scope ident props)"
  using DistributionStack_raises [of tk scope ident props] by auto





text \<open>
  Claim C7. The claim places the certificate in the region the delivery network requires
  (\<^verbatim>\<open>us-east-1\<close>, as the comment in \<^verbatim>\<open>buildCloudFrontDistribution\<close> says), whatever the
  region of the stack. The source passes no \<^verbatim>\<open>region\<close> to the certificate: for every
  domain name and zone the certificate's region property is absent, so on every stack the
  certificate is issued in the region of the stack; in the run with the environment
  \<^verbatim>\<open>eu-west-1\<close> the certificate step returns a certificate issued in \<^verbatim>\<open>eu-west-1\<close>.
\<close>

theorem certificate_follows_stack_region:
  "cert_region (DistributionCertificate name hostedZone) = None
   \<and> certificate_region this (DistributionCertificate name hostedZone) = stack_region this
   \<and> buildDistributionCertificate DOMAIN_NAME dummy_zone
        (eu_stack [BucketNode (AppBucket BUCKET_NAME), HostedZoneNode dummy_zone])
      = Inr (eu_certificate,
             eu_stack [BucketNode (AppBucket BUCKET_NAME), HostedZoneNode dummy_zone,
                       CertificateNode eu_certificate])
   \<and> certificate_region
        (eu_stack [BucketNode (AppBucket BUCKET_NAME), HostedZoneNode dummy_zone,
                   CertificateNode eu_certificate])
        eu_certificate
      = Some ''eu-west-1''"
  by (simp add: buildDistributionCertificate_def new_DnsValidatedCertificate_def addChild_def
      DistributionCertificate_def certificate_region_def eu_stack_def eu_certificate_def
      AppBucket_def dummy_zone_def)



text \<open>
  Claim C9. The claim has the constructor perform five steps in order, the last being the
  declaration of the alarms. In the run with the entry point's names and an environment,
  the stack is created, the bucket is declared, the zone is looked up and the certificate
  is declared, in this order; the fourth step, the distribution, then raises on the
  missing default behavior (the defect of claim C1), and so does the constructor: the
  fifth step is not performed.
\<close>

theorem construction_stops_at_distribution:
  "Stack_super cdk App ''CdkS3DistributionStack'' (Some eu_props) = Inr (eu_stack [])
   \<and> buildAppBucket cdk BUCKET_NAME (eu_stack [])
      = Inr (AppBucket BUCKET_NAME, eu_stack [BucketNode (AppBucket BUCKET_NAME)])
   \<and> lookupHostedZone cdk DOMAIN_NAME False (eu_stack [BucketNode (AppBucket BUCKET_NAME)])
      = Inr (dummy_zone,
             eu_stack [BucketNode (AppBucket BUCKET_NAME), HostedZoneNode dummy_zone])
   \<and> buildDistributionCertificate DOMAIN_NAME dummy_zone
        (eu_stack [BucketNode (AppBucket BUCKET_NAME), HostedZoneNode dummy_zone])
      = Inr (eu_certificate,
             eu_stack [BucketNode (AppBucket BUCKET_NAME), HostedZoneNode dummy_zone,
                       CertificateNode eu_certificate])
   \<and> buildCloudFrontDistribution (AppBucket BUCKET_NAME) DOMAIN_NAME eu_certificate
        (eu_stack [BucketNode (AppBucket BUCKET_NAME), HostedZoneNode dummy_zone,
                   CertificateNode eu_certificate])
      = Inl NoSingleDefaultBehavior
   \<and> DistributionStack cdk App ''CdkS3DistributionStack'' (Some eu_props)
      = Inl NoSingleDefaultBehavior"
  by (simp add: run_defs stack_defs toolkit_defs object_defs cdk_accepts_stack cdk_zone
      cdk_accepts_bucket[unfolded BUCKET_NAME_def] BUCKET_NAME_def Let_def)




end
